theory Spec2Isabelle
  imports Main
begin

section \<open>Persisted documents and the mail collaborator\<close>

text \<open>
  The controllers of \<^verbatim>\<open>src/controllers/AuthController.ts\<close> work on two document
  collections, \<^verbatim>\<open>User\<close> and \<^verbatim>\<open>Token\<close>, and hand mails to \<^verbatim>\<open>AuthEmail\<close>.
  A document identifier (\<^verbatim>\<open>_id\<close>) is a natural number here.
\<close>

type_synonym oid = nat

record User =
  uid :: oid
  name :: string
  email :: string
  password :: string
  confirmed :: bool

record Token =
  tid :: oid
  token :: string
  user :: oid

text \<open>
  \<^verbatim>\<open>AuthEmail.sendConfirmationEmail\<close> and \<^verbatim>\<open>AuthEmail.sendPasswordResetToken\<close> take an
  \<^verbatim>\<open>IEmail\<close> (email, name, token). The controllers call them without \<^verbatim>\<open>await\<close>, so a
  call is recorded and its delivery never influences the handler.
\<close>

datatype mail =
  ConfirmationEmail string string string
| PasswordResetToken string string string

record db =
  users :: "User list"
  tokens :: "Token list"
  outbox :: "mail list"

section \<open>Responses\<close>

text \<open>
  Each handler answers with a status code; the failure names are those of the
  specification's taxonomy, the number is the status the code sends.
\<close>

datatype error =
  DuplicateEmail | UnknownEmail | InvalidToken | AccountNotConfirmed
| AlreadyConfirmed | InvalidPassword | InternalFailure

datatype message =
  AccountCreated | AccountConfirmed | NewTokenSent | ResetInstructions
| TokenValid | PasswordModified | ProfileUpdated

datatype response =
  Sent message
| SentJWT string
| Failure nat error
| NoResponse

section \<open>The environment of one request\<close>

text \<open>
  What a handler cannot decide by itself: whether its queries and writes resolve or
  reject, the code \<^verbatim>\<open>generateToken()\<close> returns, and the helpers of \<^verbatim>\<open>utils/auth\<close> and
  \<^verbatim>\<open>utils/jwt\<close>, which are not part of the controller.
  In every handler all queries come before the first write and the first mail, so one
  flag \<open>reads_ok\<close> (no query of this request rejects) is enough.
\<close>

record env =
  reads_ok :: bool
  user_save_ok :: bool
  token_save_ok :: bool
  token_delete_ok :: bool
  generateToken :: string
  hashPassword :: "string \<Rightarrow> string"
  checkPassword :: "string \<Rightarrow> string \<Rightarrow> bool"
  generateJWT :: "oid \<Rightarrow> string"

section \<open>Queries and writes\<close>

text \<open>
  Modelled from the spec: the \<^verbatim>\<open>User\<close> schema (\<^verbatim>\<open>models/User\<close>) is not among the
  sources. The specification's data model gives an account a "unique email
  (case-normalized)", so an email is lower-cased when it is stored and when it is
  queried.
\<close>

definition lowercase_char :: "char \<Rightarrow> char" where
  "lowercase_char c =
     (if 65 \<le> (of_char c :: nat) \<and> (of_char c :: nat) \<le> 90
      then char_of ((of_char c :: nat) + 32) else c)"

definition normalize_email :: "string \<Rightarrow> string" where
  "normalize_email e = map lowercase_char e"

definition User_findOne :: "db \<Rightarrow> string \<Rightarrow> User option" where
  "User_findOne s e = find (\<lambda>u. email u = normalize_email e) (users s)"

definition User_findById :: "db \<Rightarrow> oid \<Rightarrow> User option" where
  "User_findById s i = find (\<lambda>u. uid u = i) (users s)"

definition Token_findOne :: "db \<Rightarrow> string \<Rightarrow> Token option" where
  "Token_findOne s t = find (\<lambda>k. token k = t) (tokens s)"

definition Token_findOne_user :: "db \<Rightarrow> oid \<Rightarrow> Token option" where
  "Token_findOne_user s i = find (\<lambda>k. user k = i) (tokens s)"

text \<open>
  A new document gets an identifier no stored document carries or refers to.
\<close>

definition new_oid :: "db \<Rightarrow> oid" where
  "new_oid s =
     Suc (fold max (map uid (users s) @ map tid (tokens s) @ map user (tokens s)) 0)"

definition insert_user :: "User \<Rightarrow> db \<Rightarrow> db" where
  "insert_user u s = s\<lparr>users := users s @ [u]\<rparr>"

text \<open>
  \<^verbatim>\<open>save()\<close> on a document that was read and then assigned to writes the assigned
  fields of the stored document with that identifier.
\<close>

definition update_user :: "oid \<Rightarrow> (User \<Rightarrow> User) \<Rightarrow> db \<Rightarrow> db" where
  "update_user i f s = s\<lparr>users := map (\<lambda>v. if uid v = i then f v else v) (users s)\<rparr>"

definition save_token :: "Token \<Rightarrow> db \<Rightarrow> db" where
  "save_token k s = s\<lparr>tokens := tokens s @ [k]\<rparr>"

definition deleteOne :: "Token \<Rightarrow> db \<Rightarrow> db" where
  "deleteOne k s = s\<lparr>tokens := filter (\<lambda>x. tid x \<noteq> tid k) (tokens s)\<rparr>"

definition send :: "mail \<Rightarrow> db \<Rightarrow> db" where
  "send m s = s\<lparr>outbox := outbox s @ [m]\<rparr>"

section \<open>AuthController\<close>

text \<open>
  \<^verbatim>\<open>createAccount\<close>: the mail goes out first, then
  \<^verbatim>\<open>Promise.allSettled([user.save(), token.save()])\<close> attempts both writes and ignores
  a rejection of either.
\<close>

definition createAccount :: "env \<Rightarrow> string \<Rightarrow> string \<Rightarrow> string \<Rightarrow> db \<Rightarrow> response \<times> db" where
  "createAccount env nm e pw s =
     (if \<not> reads_ok env then (Failure 500 InternalFailure, s)
      else case User_findOne s e of
        Some userExists \<Rightarrow> (Failure 409 DuplicateEmail, s)
      | None \<Rightarrow>
          let u = \<lparr>uid = new_oid s, name = nm, email = normalize_email e,
                   password = hashPassword env pw, confirmed = False\<rparr>;
              k = \<lparr>tid = Suc (new_oid s), token = generateToken env, user = uid u\<rparr>;
              s1 = send (ConfirmationEmail (email u) (name u) (token k)) s;
              s2 = (if user_save_ok env then insert_user u s1 else s1);
              s3 = (if token_save_ok env then save_token k s2 else s2)
          in (Sent AccountCreated, s3))"

text \<open>
  \<^verbatim>\<open>confirmAccount\<close>: \<^verbatim>\<open>User.findById\<close> may yield \<^verbatim>\<open>null\<close>; the assignment
  \<^verbatim>\<open>user.confirmed = true\<close> then throws and the \<^verbatim>\<open>catch\<close> answers 500.
\<close>

definition confirmAccount :: "env \<Rightarrow> string \<Rightarrow> db \<Rightarrow> response \<times> db" where
  "confirmAccount env t s =
     (if \<not> reads_ok env then (Failure 500 InternalFailure, s)
      else case Token_findOne s t of
        None \<Rightarrow> (Failure 404 InvalidToken, s)
      | Some tokenExist \<Rightarrow>
          (case User_findById s (user tokenExist) of
             None \<Rightarrow> (Failure 500 InternalFailure, s)
           | Some u \<Rightarrow>
               let s1 = (if user_save_ok env
                         then update_user (uid u) (\<lambda>v. v\<lparr>confirmed := True\<rparr>) s else s);
                   s2 = (if token_delete_ok env then deleteOne tokenExist s1 else s1)
               in (Sent AccountConfirmed, s2)))"

definition login :: "env \<Rightarrow> string \<Rightarrow> string \<Rightarrow> db \<Rightarrow> response \<times> db" where
  "login env e pw s =
     (if \<not> reads_ok env then (Failure 500 InternalFailure, s)
      else case User_findOne s e of
        None \<Rightarrow> (Failure 404 UnknownEmail, s)
      | Some u \<Rightarrow>
          if \<not> confirmed u then
            (let previousToken = Token_findOne_user s (uid u) in
             if previousToken \<noteq> None \<and> \<not> token_delete_ok env
             then (Failure 500 InternalFailure, s)
             else
               let s1 = (case previousToken of None \<Rightarrow> s | Some p \<Rightarrow> deleteOne p s);
                   k = \<lparr>tid = new_oid s, token = generateToken env, user = uid u\<rparr>
               in if \<not> token_save_ok env then (Failure 500 InternalFailure, s1)
                  else (Failure 401 AccountNotConfirmed,
                        send (ConfirmationEmail (email u) (name u) (token k)) (save_token k s1)))
          else if \<not> checkPassword env pw (password u) then (Failure 404 InvalidPassword, s)
          else (SentJWT (generateJWT env (uid u)), s))"

text \<open>
  \<^verbatim>\<open>requestConfirmationCode\<close> sends the mail before \<^verbatim>\<open>token.save()\<close>.
\<close>

definition requestConfirmationCode :: "env \<Rightarrow> string \<Rightarrow> db \<Rightarrow> response \<times> db" where
  "requestConfirmationCode env e s =
     (if \<not> reads_ok env then (Failure 500 InternalFailure, s)
      else case User_findOne s e of
        None \<Rightarrow> (Failure 404 UnknownEmail, s)
      | Some u \<Rightarrow>
          if confirmed u then (Failure 403 AlreadyConfirmed, s)
          else
            (let previousToken = Token_findOne_user s (uid u) in
             if previousToken \<noteq> None \<and> \<not> token_delete_ok env
             then (Failure 500 InternalFailure, s)
             else
               let s1 = (case previousToken of None \<Rightarrow> s | Some p \<Rightarrow> deleteOne p s);
                   k = \<lparr>tid = new_oid s, token = generateToken env, user = uid u\<rparr>;
                   s2 = send (ConfirmationEmail (email u) (name u) (token k)) s1
               in if \<not> token_save_ok env then (Failure 500 InternalFailure, s2)
                  else (Sent NewTokenSent, save_token k s2)))"

definition forgotPassword :: "env \<Rightarrow> string \<Rightarrow> db \<Rightarrow> response \<times> db" where
  "forgotPassword env e s =
     (if \<not> reads_ok env then (Failure 500 InternalFailure, s)
      else case User_findOne s e of
        None \<Rightarrow> (Failure 404 UnknownEmail, s)
      | Some u \<Rightarrow>
          (let previousToken = Token_findOne_user s (uid u) in
           if previousToken \<noteq> None \<and> \<not> token_delete_ok env
           then (Failure 500 InternalFailure, s)
           else
             let s1 = (case previousToken of None \<Rightarrow> s | Some p \<Rightarrow> deleteOne p s);
                 k = \<lparr>tid = new_oid s, token = generateToken env, user = uid u\<rparr>
             in if \<not> token_save_ok env then (Failure 500 InternalFailure, s1)
                else (Sent ResetInstructions,
                      send (PasswordResetToken (email u) (name u) (token k)) (save_token k s1))))"

definition validateToken :: "env \<Rightarrow> string \<Rightarrow> db \<Rightarrow> response \<times> db" where
  "validateToken env t s =
     (if \<not> reads_ok env then (Failure 500 InternalFailure, s)
      else case Token_findOne s t of
        None \<Rightarrow> (Failure 404 InvalidToken, s)
      | Some tokenExist \<Rightarrow> (Sent TokenValid, s))"

definition updatePasswordWithToken :: "env \<Rightarrow> string \<Rightarrow> string \<Rightarrow> db \<Rightarrow> response \<times> db" where
  "updatePasswordWithToken env t pw s =
     (if \<not> reads_ok env then (Failure 500 InternalFailure, s)
      else case Token_findOne s t of
        None \<Rightarrow> (Failure 404 InvalidToken, s)
      | Some tokenExists \<Rightarrow>
          (case User_findById s (user tokenExists) of
             None \<Rightarrow> (Failure 500 InternalFailure, s)
           | Some u \<Rightarrow>
               let s1 = (if user_save_ok env
                         then update_user (uid u) (\<lambda>v. v\<lparr>password := hashPassword env pw\<rparr>) s
                         else s);
                   s2 = (if token_delete_ok env then deleteOne tokenExists s1 else s1)
               in (Sent PasswordModified, s2)))"

text \<open>
  \<^verbatim>\<open>updateProfile\<close>: \<open>me\<close> is \<^verbatim>\<open>req.user.id\<close>, the account the session resolved to.
  The query stands outside the \<^verbatim>\<open>try\<close>, so its rejection is answered by nobody.
  \<^verbatim>\<open>req.user.save()\<close> writes the two assigned fields of that account's document.
\<close>

definition updateProfile :: "env \<Rightarrow> oid \<Rightarrow> string \<Rightarrow> string \<Rightarrow> db \<Rightarrow> response \<times> db" where
  "updateProfile env me nm e s =
     (if \<not> reads_ok env then (NoResponse, s)
      else if (case User_findOne s e of
                 None \<Rightarrow> False
               | Some userExist \<Rightarrow> uid userExist \<noteq> me)
      then (Failure 409 DuplicateEmail, s)
      else if user_save_ok env
      then (Sent ProfileUpdated,
            update_user me (\<lambda>v. v\<lparr>name := nm, email := normalize_email e\<rparr>) s)
      else (Failure 500 InternalFailure, s))"

section \<open>The lifecycle as a sequence of requests\<close>




text \<open>At most one token document per account.\<close>

definition one_token_per_account :: "db \<Rightarrow> bool" where
  "one_token_per_account s = distinct (map user (tokens s))"

text \<open>The tokens of the accounts other than a given one.\<close>

definition tokens_not_of :: "oid \<Rightarrow> db \<Rightarrow> Token list" where
  "tokens_not_of i s = filter (\<lambda>k. user k \<noteq> i) (tokens s)"

section \<open>Project routes\<close>

text \<open>
  \<^verbatim>\<open>src/routes/projectRoutes.ts\<close> lists, for each route, the middleware a request
  passes before it reaches the controller. \<^verbatim>\<open>router.use(authenticate)\<close> and the
  parameter callbacks \<^verbatim>\<open>projectExist\<close>, \<^verbatim>\<open>taskExists\<close> and \<^verbatim>\<open>taskBelongToProject\<close>
  come first; a request here is one that passed them: it carries the account the session
  resolved to and the project that was found.
\<close>

record Project =
  manager :: oid
  team :: "oid list"

record req =
  account :: oid
  project :: Project
  inputs_valid :: bool

datatype route =
  createProject | getAllProjects | getProjectById | updateProject | deleteProject
| createTask | getProjectTasks | getTaskById | updateTask | deleteTask | updateStatus
| findMemberByEmail | getProjectTeam | addMemberById | removeMemberById
| createNote | getTaskNotes | deleteNote

text \<open>
  The validators (\<^verbatim>\<open>body(...)\<close>, \<^verbatim>\<open>param(...)\<close>) only collect errors;
  \<^verbatim>\<open>handleInputsErrors\<close> rejects when there are any.
\<close>

datatype middleware = HandleInputsErrors | HasAuthorization

fun stack :: "route \<Rightarrow> middleware list" where
  "stack createProject = [HandleInputsErrors]"
| "stack getAllProjects = []"
| "stack getProjectById = [HandleInputsErrors]"
| "stack updateProject = [HandleInputsErrors, HasAuthorization]"
| "stack deleteProject = [HandleInputsErrors, HasAuthorization]"
| "stack createTask = [HandleInputsErrors]"
| "stack getProjectTasks = []"
| "stack getTaskById = [HandleInputsErrors]"
| "stack updateTask = [HasAuthorization, HandleInputsErrors]"
| "stack deleteTask = [HasAuthorization, HandleInputsErrors]"
| "stack updateStatus = [HasAuthorization, HandleInputsErrors]"
| "stack findMemberByEmail = [HandleInputsErrors]"
| "stack getProjectTeam = []"
| "stack addMemberById = [HandleInputsErrors]"
| "stack removeMemberById = [HandleInputsErrors]"
| "stack createNote = [HandleInputsErrors]"
| "stack getTaskNotes = []"
| "stack deleteNote = [HandleInputsErrors]"




datatype rejection = Unauthorized | InvalidInput

datatype outcome = Reaches route | Rejected rejection

text \<open>
  A request goes through the middleware in the order the route lists them; the first one
  that rejects answers. The gate is a parameter, so that what follows from the route
  table alone can be said for every gate.
\<close>

fun through :: "(oid \<Rightarrow> Project \<Rightarrow> bool) \<Rightarrow> req \<Rightarrow> middleware list \<Rightarrow> rejection option" where
  "through gate r [] = None"
| "through gate r (HandleInputsErrors # ms) =
     (if inputs_valid r then through gate r ms else Some InvalidInput)"
| "through gate r (HasAuthorization # ms) =
     (if gate (account r) (project r) then through gate r ms else Some Unauthorized)"

definition dispatch_with :: "(oid \<Rightarrow> Project \<Rightarrow> bool) \<Rightarrow> route \<Rightarrow> req \<Rightarrow> outcome" where
  "dispatch_with gate rt r =
     (case through gate r (stack rt) of None \<Rightarrow> Reaches rt | Some e \<Rightarrow> Rejected e)"


section \<open>Example data\<close>

definition env_ok :: env where
  "env_ok = \<lparr>reads_ok = True, user_save_ok = True, token_save_ok = True,
             token_delete_ok = True, generateToken = ''482913'',
             hashPassword = (\<lambda>p. ''h:'' @ p),
             checkPassword = (\<lambda>p h. h = ''h:'' @ p),
             generateJWT = (\<lambda>i. replicate i (CHR ''j''))\<rparr>"

definition ann :: User where
  "ann = \<lparr>uid = 1, name = ''Ann'', email = ''ann@x.com'', password = ''h:pw123'',
          confirmed = False\<rparr>"

definition bob :: User where
  "bob = \<lparr>uid = 2, name = ''Bob'', email = ''bob@x.com'', password = ''h:secret'',
          confirmed = True\<rparr>"

definition ann_token :: Token where
  "ann_token = \<lparr>tid = 3, token = ''111111'', user = 1\<rparr>"

definition bob_token :: Token where
  "bob_token = \<lparr>tid = 4, token = ''222222'', user = 2\<rparr>"

definition db0 :: db where
  "db0 = \<lparr>users = [ann, bob], tokens = [ann_token, bob_token], outbox = []\<rparr>"

definition db_empty :: db where
  "db_empty = \<lparr>users = [], tokens = [], outbox = []\<rparr>"



section \<open>Queries, identifiers and deletions: auxiliary facts\<close>







lemma delete_found_eq_filter_account:
  assumes d: "distinct (map user ts)" and dt: "distinct (map tid ts)"
    and f: "find (\<lambda>k. user k = i) ts = Some p"
  shows "filter (\<lambda>x. tid x \<noteq> tid p) ts = filter (\<lambda>x. user x \<noteq> i) ts"
proof (rule filter_cong [OF refl])
  fix x assume x: "x \<in> set ts"
  from f have p: "p \<in> set ts" "user p = i" by (auto simp: find_Some_iff)
  from d have iu: "inj_on user (set ts)" by (simp add: distinct_map)
  from dt have it: "inj_on tid (set ts)" by (simp add: distinct_map)
  show "(tid x \<noteq> tid p) = (user x \<noteq> i)"
    using x p iu it by (auto dest: inj_onD)
qed

lemma find_user_None_filter: "find (\<lambda>k. user k = i) ts = None \<Longrightarrow> filter (\<lambda>x. user x \<noteq> i) ts = ts"
  by (auto simp: find_None_iff filter_id_conv)


lemma one_token_send [simp]: "one_token_per_account (send m s) = one_token_per_account s"
  by (simp add: one_token_per_account_def send_def)

lemma one_token_update_user [simp]: "one_token_per_account (update_user i f s) = one_token_per_account s"
  by (simp add: one_token_per_account_def update_user_def)

lemma one_token_insert_user [simp]: "one_token_per_account (insert_user u s) = one_token_per_account s"
  by (simp add: one_token_per_account_def insert_user_def)

lemma one_token_save_after_send [simp]:
  "one_token_per_account (save_token k (send m s)) = one_token_per_account (save_token k s)"
  by (simp add: one_token_per_account_def save_token_def send_def)













lemma Token_findOne_None_iff: "Token_findOne s t = None \<longleftrightarrow> t \<notin> token ` set (tokens s)"
  by (auto simp: Token_findOne_def find_None_iff)

lemma User_findOne_None_iff:
  "User_findOne s e = None \<longleftrightarrow> normalize_email e \<notin> email ` set (users s)"
  by (force simp: User_findOne_def find_None_iff)

lemma tokens_previous_deleted:
  assumes "one_token_per_account s" and "distinct (map tid (tokens s))"
  shows "tokens (case Token_findOne_user s i of None \<Rightarrow> s | Some p \<Rightarrow> deleteOne p s)
         = tokens_not_of i s"
proof (cases "Token_findOne_user s i")
  case None
  then show ?thesis
    by (simp add: tokens_not_of_def Token_findOne_user_def find_user_None_filter)
next
  case (Some p)
  with assms show ?thesis
    by (simp add: tokens_not_of_def Token_findOne_user_def deleteOne_def
          one_token_per_account_def delete_found_eq_filter_account)
qed

lemma frame_previous_deleted:
  "users (case Token_findOne_user s i of None \<Rightarrow> s | Some p \<Rightarrow> deleteOne p s) = users s"
  "outbox (case Token_findOne_user s i of None \<Rightarrow> s | Some p \<Rightarrow> deleteOne p s) = outbox s"
  by (simp_all add: deleteOne_def split: option.splits)

lemma db_eqI:
  "users a = users b \<Longrightarrow> tokens a = tokens b \<Longrightarrow> outbox a = outbox b \<Longrightarrow> (a::db) = b"
  by simp

lemma frame_update_user:
  "map uid (users (update_user i (\<lambda>v. v\<lparr>password := h\<rparr>) s)) = map uid (users s)"
  "map name (users (update_user i (\<lambda>v. v\<lparr>password := h\<rparr>) s)) = map name (users s)"
  "map email (users (update_user i (\<lambda>v. v\<lparr>password := h\<rparr>) s)) = map email (users s)"
  "map confirmed (users (update_user i (\<lambda>v. v\<lparr>password := h\<rparr>) s)) = map confirmed (users s)"
  by (simp_all add: update_user_def comp_def)



lemma User_findOne_Some:
  "User_findOne s e = Some x \<Longrightarrow> x \<in> set (users s) \<and> email x = normalize_email e"
  by (auto simp: User_findOne_def find_Some_iff)

section \<open>The token invariant (C5)\<close>



section \<open>Validation of a reset token (C7)\<close>

text \<open>
  C7. \<^verbatim>\<open>validateToken\<close> answers \<open>InvalidToken\<close> when no token document carries the
  value, and in every case (valid token, invalid token, failing query) it leaves the
  users, the tokens and the outbox as they were: nothing is consumed, created or changed.
\<close>

theorem validateToken_frame:
  "snd (validateToken env t s) = s \<and>
   (reads_ok env \<longrightarrow> t \<notin> token ` set (tokens s) \<longrightarrow>
      fst (validateToken env t s) = Failure 404 InvalidToken)"
  by (auto simp: validateToken_def Token_findOne_None_iff [symmetric] split: option.splits)

theorem validateToken_frame_witness:
  "reads_ok env_ok \<and> ''999999'' \<notin> token ` set (tokens db0) \<and>
   validateToken env_ok ''999999'' db0 = (Failure 404 InvalidToken, db0)"
proof -
  have a: "reads_ok env_ok" by code_simp
  have b: "''999999'' \<notin> token ` set (tokens db0)" by code_simp
  from validateToken_frame [of env_ok "''999999''" db0] a b
  show ?thesis by (simp add: prod_eq_iff)
qed

section \<open>Login of an unconfirmed account (C2)\<close>

text \<open>
  C2. A login that names an existing, unconfirmed account never answers with a session
  credential, whatever its queries and writes do. When they resolve, and the state has
  at most one token per account (with distinct document identifiers), the answer is
  \<open>AccountNotConfirmed\<close> (401), the account's earlier token is gone, exactly one new
  token for the account is stored, and exactly one confirmation mail carrying it is
  handed over; users and the other accounts' tokens stay as they were.
\<close>

theorem login_unconfirmed:
  assumes "User_findOne s e = Some u" and "\<not> confirmed u"
    and "one_token_per_account s" and "distinct (map tid (tokens s))"
  shows "(\<forall>j. fst (login env e pw s) \<noteq> SentJWT j) \<and>
         (reads_ok env \<and> token_delete_ok env \<and> token_save_ok env \<longrightarrow>
            login env e pw s =
              (Failure 401 AccountNotConfirmed,
               s\<lparr>tokens := tokens_not_of (uid u) s
                    @ [\<lparr>tid = new_oid s, token = generateToken env, user = uid u\<rparr>],
                 outbox := outbox s
                    @ [ConfirmationEmail (email u) (name u) (generateToken env)]\<rparr>))"
proof
  show "\<forall>j. fst (login env e pw s) \<noteq> SentJWT j"
    using assms(1,2) by (simp add: login_def Let_def)
next
  let ?s1 = "case Token_findOne_user s (uid u) of None \<Rightarrow> s | Some p \<Rightarrow> deleteOne p s"
  have t: "tokens ?s1 = tokens_not_of (uid u) s"
    using assms(3,4) by (rule tokens_previous_deleted)
  show "reads_ok env \<and> token_delete_ok env \<and> token_save_ok env \<longrightarrow>
            login env e pw s =
              (Failure 401 AccountNotConfirmed,
               s\<lparr>tokens := tokens_not_of (uid u) s
                    @ [\<lparr>tid = new_oid s, token = generateToken env, user = uid u\<rparr>],
                 outbox := outbox s
                    @ [ConfirmationEmail (email u) (name u) (generateToken env)]\<rparr>)"
    using assms(1,2) t
    by (auto simp: login_def Let_def send_def save_token_def frame_previous_deleted
          intro!: db_eqI)
qed

theorem login_unconfirmed_witness:
  "User_findOne db0 ''Ann@x.com'' = Some ann \<and> \<not> confirmed ann \<and>
   one_token_per_account db0 \<and> distinct (map tid (tokens db0)) \<and>
   reads_ok env_ok \<and> token_delete_ok env_ok \<and> token_save_ok env_ok \<and>
   (\<forall>j. fst (login env_ok ''Ann@x.com'' ''pw123'' db0) \<noteq> SentJWT j) \<and>
   login env_ok ''Ann@x.com'' ''pw123'' db0 =
     (Failure 401 AccountNotConfirmed,
      db0\<lparr>tokens := [bob_token, \<lparr>tid = 5, token = ''482913'', user = 1\<rparr>],
          outbox := [ConfirmationEmail ''ann@x.com'' ''Ann'' ''482913'']\<rparr>)"
proof -
  have a: "User_findOne db0 ''Ann@x.com'' = Some ann" by code_simp
  have b: "\<not> confirmed ann" by code_simp
  have c: "one_token_per_account db0" by code_simp
  have d: "distinct (map tid (tokens db0))" by code_simp
  have e: "reads_ok env_ok \<and> token_delete_ok env_ok \<and> token_save_ok env_ok" by code_simp
  have f: "login env_ok ''Ann@x.com'' ''pw123'' db0 =
     (Failure 401 AccountNotConfirmed,
      db0\<lparr>tokens := [bob_token, \<lparr>tid = 5, token = ''482913'', user = 1\<rparr>],
          outbox := [ConfirmationEmail ''ann@x.com'' ''Ann'' ''482913'']\<rparr>)" by code_simp
  from login_unconfirmed [OF a b c d, of env_ok "''pw123''"]
  have g: "\<forall>j. fst (login env_ok ''Ann@x.com'' ''pw123'' db0) \<noteq> SentJWT j" by blast
  from a b c d e f g show ?thesis by blast
qed

section \<open>Confirmation (C3)\<close>

text \<open>
  C3, as stated, fails. The claim makes the two writes of a successful confirmation
  atomic: both happen, or the account is unchanged. With the deletion of the token
  rejected, \<^verbatim>\<open>Promise.allSettled\<close> ignores the rejection: the answer is the success
  message, the account is confirmed, and the token is still stored.
\<close>

theorem confirmAccount_not_atomic:
  "fst (confirmAccount (env_ok\<lparr>token_delete_ok := False\<rparr>) ''111111'' db0)
     = Sent AccountConfirmed \<and>
   users (snd (confirmAccount (env_ok\<lparr>token_delete_ok := False\<rparr>) ''111111'' db0))
     = [ann\<lparr>confirmed := True\<rparr>, bob] \<and>
   users db0 = [ann, bob] \<and> \<not> confirmed ann \<and>
   tokens (snd (confirmAccount (env_ok\<lparr>token_delete_ok := False\<rparr>) ''111111'' db0))
     = [ann_token, bob_token]"
  by code_simp

text \<open>
  C3, amended. \<^verbatim>\<open>confirmAccount\<close> answers \<open>InvalidToken\<close> (404), changing nothing,
  when no token document carries the value. When one does and its account exists, the
  answer is the success message and the two writes are attempted independently of each
  other: the account is set to confirmed when its write resolves, the token is deleted
  when the deletion resolves, and neither is undone when the other is rejected. When
  both resolve, the account is confirmed and the token is gone.
\<close>

theorem confirmAccount_best_effort:
  assumes "reads_ok env"
  shows "(t \<notin> token ` set (tokens s) \<longrightarrow>
            confirmAccount env t s = (Failure 404 InvalidToken, s)) \<and>
         (Token_findOne s t = Some k \<and> User_findById s (user k) = Some a \<longrightarrow>
            fst (confirmAccount env t s) = Sent AccountConfirmed \<and>
            users (snd (confirmAccount env t s))
              = (if user_save_ok env
                 then map (\<lambda>v. if uid v = uid a then v\<lparr>confirmed := True\<rparr> else v) (users s)
                 else users s) \<and>
            tokens (snd (confirmAccount env t s))
              = (if token_delete_ok env
                 then filter (\<lambda>x. tid x \<noteq> tid k) (tokens s)
                 else tokens s) \<and>
            outbox (snd (confirmAccount env t s)) = outbox s)"
proof (intro conjI impI)
  assume "t \<notin> token ` set (tokens s)"
  then have "Token_findOne s t = None" by (simp add: Token_findOne_None_iff)
  with assms show "confirmAccount env t s = (Failure 404 InvalidToken, s)"
    by (simp add: confirmAccount_def)
next
  assume h: "Token_findOne s t = Some k \<and> User_findById s (user k) = Some a"
  from assms h show "fst (confirmAccount env t s) = Sent AccountConfirmed"
    by (simp add: confirmAccount_def Let_def)
  from assms h show "users (snd (confirmAccount env t s))
              = (if user_save_ok env
                 then map (\<lambda>v. if uid v = uid a then v\<lparr>confirmed := True\<rparr> else v) (users s)
                 else users s)"
    by (simp add: confirmAccount_def Let_def deleteOne_def update_user_def)
  from assms h show "tokens (snd (confirmAccount env t s))
              = (if token_delete_ok env
                 then filter (\<lambda>x. tid x \<noteq> tid k) (tokens s)
                 else tokens s)"
    by (simp add: confirmAccount_def Let_def deleteOne_def update_user_def)
  from assms h show "outbox (snd (confirmAccount env t s)) = outbox s"
    by (simp add: confirmAccount_def Let_def deleteOne_def update_user_def)
qed

theorem confirmAccount_best_effort_witness:
  "reads_ok env_ok \<and> ''999999'' \<notin> token ` set (tokens db0) \<and>
   confirmAccount env_ok ''999999'' db0 = (Failure 404 InvalidToken, db0) \<and>
   Token_findOne db0 ''111111'' = Some ann_token \<and>
   User_findById db0 (user ann_token) = Some ann \<and>
   fst (confirmAccount env_ok ''111111'' db0) = Sent AccountConfirmed \<and>
   users (snd (confirmAccount env_ok ''111111'' db0)) = [ann\<lparr>confirmed := True\<rparr>, bob] \<and>
   tokens (snd (confirmAccount env_ok ''111111'' db0)) = [bob_token]"
proof -
  have r: "reads_ok env_ok" by code_simp
  have a: "''999999'' \<notin> token ` set (tokens db0)" by code_simp
  have b: "Token_findOne db0 ''111111'' = Some ann_token \<and>
           User_findById db0 (user ann_token) = Some ann" by code_simp
  have c: "(if user_save_ok env_ok
            then map (\<lambda>v. if uid v = uid ann then v\<lparr>confirmed := True\<rparr> else v) (users db0)
            else users db0) = [ann\<lparr>confirmed := True\<rparr>, bob]" by code_simp
  have d: "(if token_delete_ok env_ok
            then filter (\<lambda>x. tid x \<noteq> tid ann_token) (tokens db0)
            else tokens db0) = [bob_token]" by code_simp
  from confirmAccount_best_effort [where env = env_ok and s = db0 and t = "''999999''", OF r] a
  have a': "confirmAccount env_ok ''999999'' db0 = (Failure 404 InvalidToken, db0)" by blast
  from confirmAccount_best_effort [where env = env_ok and s = db0 and t = "''111111''"
      and k = ann_token and a = ann, OF r] b
  have b': "fst (confirmAccount env_ok ''111111'' db0) = Sent AccountConfirmed \<and>
     users (snd (confirmAccount env_ok ''111111'' db0))
       = (if user_save_ok env_ok
          then map (\<lambda>v. if uid v = uid ann then v\<lparr>confirmed := True\<rparr> else v) (users db0)
          else users db0) \<and>
     tokens (snd (confirmAccount env_ok ''111111'' db0))
       = (if token_delete_ok env_ok
          then filter (\<lambda>x. tid x \<noteq> tid ann_token) (tokens db0)
          else tokens db0)" by blast
  from r a b a' b' [unfolded c d] show ?thesis by blast
qed

section \<open>Single use of a token (C4)\<close>




section \<open>Request of a new confirmation code (C6)\<close>

text \<open>
  C6. \<^verbatim>\<open>requestConfirmationCode\<close> answers \<open>UnknownEmail\<close> (404) when no account has
  the email and \<open>AlreadyConfirmed\<close> (403) when the account is confirmed, changing
  nothing in either case. Otherwise, with the writes resolving and at most one token per
  account, the account's earlier token is deleted, exactly one new token is stored for
  it and one confirmation mail with that token is handed over.
\<close>

theorem requestConfirmationCode_cases:
  assumes "reads_ok env"
  shows "(normalize_email e \<notin> email ` set (users s) \<longrightarrow>
            requestConfirmationCode env e s = (Failure 404 UnknownEmail, s)) \<and>
         (User_findOne s e = Some u \<and> confirmed u \<longrightarrow>
            requestConfirmationCode env e s = (Failure 403 AlreadyConfirmed, s)) \<and>
         (User_findOne s e = Some u \<and> \<not> confirmed u \<and>
          token_delete_ok env \<and> token_save_ok env \<and>
          one_token_per_account s \<and> distinct (map tid (tokens s)) \<longrightarrow>
            requestConfirmationCode env e s =
              (Sent NewTokenSent,
               s\<lparr>tokens := tokens_not_of (uid u) s
                    @ [\<lparr>tid = new_oid s, token = generateToken env, user = uid u\<rparr>],
                 outbox := outbox s
                    @ [ConfirmationEmail (email u) (name u) (generateToken env)]\<rparr>))"
proof (intro conjI impI)
  assume "normalize_email e \<notin> email ` set (users s)"
  then have "User_findOne s e = None" by (simp add: User_findOne_None_iff)
  with assms show "requestConfirmationCode env e s = (Failure 404 UnknownEmail, s)"
    by (simp add: requestConfirmationCode_def)
next
  assume "User_findOne s e = Some u \<and> confirmed u"
  with assms show "requestConfirmationCode env e s = (Failure 403 AlreadyConfirmed, s)"
    by (simp add: requestConfirmationCode_def)
next
  assume h: "User_findOne s e = Some u \<and> \<not> confirmed u \<and>
          token_delete_ok env \<and> token_save_ok env \<and>
          one_token_per_account s \<and> distinct (map tid (tokens s))"
  let ?s1 = "case Token_findOne_user s (uid u) of None \<Rightarrow> s | Some p \<Rightarrow> deleteOne p s"
  from h have t: "tokens ?s1 = tokens_not_of (uid u) s"
    by (simp add: tokens_previous_deleted)
  from assms h t show "requestConfirmationCode env e s =
              (Sent NewTokenSent,
               s\<lparr>tokens := tokens_not_of (uid u) s
                    @ [\<lparr>tid = new_oid s, token = generateToken env, user = uid u\<rparr>],
                 outbox := outbox s
                    @ [ConfirmationEmail (email u) (name u) (generateToken env)]\<rparr>)"
    by (auto simp: requestConfirmationCode_def Let_def send_def save_token_def
          frame_previous_deleted intro!: db_eqI)
qed

theorem requestConfirmationCode_cases_witness:
  "reads_ok env_ok \<and>
   normalize_email ''zed@x.com'' \<notin> email ` set (users db0) \<and>
   requestConfirmationCode env_ok ''zed@x.com'' db0 = (Failure 404 UnknownEmail, db0) \<and>
   User_findOne db0 ''bob@x.com'' = Some bob \<and> confirmed bob \<and>
   requestConfirmationCode env_ok ''bob@x.com'' db0 = (Failure 403 AlreadyConfirmed, db0) \<and>
   User_findOne db0 ''ann@x.com'' = Some ann \<and> \<not> confirmed ann \<and>
   token_delete_ok env_ok \<and> token_save_ok env_ok \<and>
   one_token_per_account db0 \<and> distinct (map tid (tokens db0)) \<and>
   requestConfirmationCode env_ok ''ann@x.com'' db0 =
     (Sent NewTokenSent,
      db0\<lparr>tokens := [bob_token, \<lparr>tid = 5, token = ''482913'', user = 1\<rparr>],
          outbox := [ConfirmationEmail ''ann@x.com'' ''Ann'' ''482913'']\<rparr>)"
proof -
  have ev: "db0\<lparr>tokens := tokens_not_of (uid ann) db0
             @ [\<lparr>tid = new_oid db0, token = generateToken env_ok, user = uid ann\<rparr>],
          outbox := outbox db0
             @ [ConfirmationEmail (email ann) (name ann) (generateToken env_ok)]\<rparr>
     = db0\<lparr>tokens := [bob_token, \<lparr>tid = 5, token = ''482913'', user = 1\<rparr>],
          outbox := [ConfirmationEmail ''ann@x.com'' ''Ann'' ''482913'']\<rparr>" by code_simp
  have r: "reads_ok env_ok" by code_simp
  have a: "normalize_email ''zed@x.com'' \<notin> email ` set (users db0)" by code_simp
  have b: "User_findOne db0 ''bob@x.com'' = Some bob \<and> confirmed bob" by code_simp
  have c: "User_findOne db0 ''ann@x.com'' = Some ann \<and> \<not> confirmed ann \<and>
     token_delete_ok env_ok \<and> token_save_ok env_ok \<and>
     one_token_per_account db0 \<and> distinct (map tid (tokens db0))" by code_simp
  note T = requestConfirmationCode_cases [OF r]
  from T [of "''zed@x.com''" db0] a
  have a': "requestConfirmationCode env_ok ''zed@x.com'' db0 = (Failure 404 UnknownEmail, db0)"
    by blast
  from T [of "''bob@x.com''" db0 bob] b
  have b': "requestConfirmationCode env_ok ''bob@x.com'' db0 = (Failure 403 AlreadyConfirmed, db0)"
    by blast
  from T [of "''ann@x.com''" db0 ann] c
  have c': "requestConfirmationCode env_ok ''ann@x.com'' db0 =
     (Sent NewTokenSent,
      db0\<lparr>tokens := tokens_not_of (uid ann) db0
             @ [\<lparr>tid = new_oid db0, token = generateToken env_ok, user = uid ann\<rparr>],
          outbox := outbox db0
             @ [ConfirmationEmail (email ann) (name ann) (generateToken env_ok)]\<rparr>)"
    by blast
  from r a a' b b' c c' [unfolded ev] show ?thesis by blast
qed

section \<open>Registration with an email already taken (C8)\<close>

text \<open>
  C8. When an account is stored under the normal form of an email \<open>e'\<close>, a registration
  with any email \<open>e\<close> that has the same normal form (equal to \<open>e'\<close> up to letter case)
  answers \<open>DuplicateEmail\<close> (409) and leaves users, tokens and outbox as they were.
\<close>

theorem createAccount_duplicate_email:
  assumes "reads_ok env" and "u \<in> set (users s)"
    and "email u = normalize_email e'" and "normalize_email e = normalize_email e'"
  shows "createAccount env nm e pw s = (Failure 409 DuplicateEmail, s)"
proof -
  from assms(2-4) have "normalize_email e \<in> email ` set (users s)" by force
  then have "User_findOne s e \<noteq> None" by (simp add: User_findOne_None_iff)
  with assms(1) show ?thesis by (auto simp: createAccount_def)
qed

theorem createAccount_duplicate_email_witness:
  "reads_ok env_ok \<and>
   \<lparr>uid = 1, name = ''Ann'', email = ''ann@x.com'', password = ''h:pw1'', confirmed = False\<rparr>
     \<in> set (users (snd (createAccount env_ok ''Ann'' ''Ann@X.com'' ''pw1'' db_empty))) \<and>
   ''ann@x.com'' = normalize_email ''Ann@X.com'' \<and>
   normalize_email ''ANN@x.COM'' = normalize_email ''Ann@X.com'' \<and>
   createAccount env_ok ''Annie'' ''ANN@x.COM'' ''pw2''
       (snd (createAccount env_ok ''Ann'' ''Ann@X.com'' ''pw1'' db_empty))
     = (Failure 409 DuplicateEmail,
        snd (createAccount env_ok ''Ann'' ''Ann@X.com'' ''pw1'' db_empty))"
proof -
  let ?u = "\<lparr>uid = 1, name = ''Ann'', email = ''ann@x.com'', password = ''h:pw1'',
             confirmed = False\<rparr>"
  let ?s = "snd (createAccount env_ok ''Ann'' ''Ann@X.com'' ''pw1'' db_empty)"
  have a: "reads_ok env_ok" by code_simp
  have b: "?u \<in> set (users ?s)" by code_simp
  have c: "email ?u = normalize_email ''Ann@X.com''" by code_simp
  have c': "''ann@x.com'' = normalize_email ''Ann@X.com''" by code_simp
  have d: "normalize_email ''ANN@x.COM'' = normalize_email ''Ann@X.com''" by code_simp
  from createAccount_duplicate_email [OF a b c d, of "''Annie''" "''pw2''"] a b c' d
  show ?thesis by blast
qed

section \<open>Profile update (C9)\<close>

text \<open>
  C9. With emails unique among the stored accounts, \<^verbatim>\<open>updateProfile\<close> answers
  \<open>DuplicateEmail\<close> (409) exactly when an account other than the requesting one has
  the target email; an account that submits its own current email gets the success
  message (when its write resolves).
\<close>

theorem updateProfile_duplicate_email:
  assumes "reads_ok env" and "distinct (map email (users s))"
  shows "(fst (updateProfile env me nm e s) = Failure 409 DuplicateEmail \<longleftrightarrow>
            (\<exists>u\<in>set (users s). uid u \<noteq> me \<and> email u = normalize_email e)) \<and>
         (user_save_ok env \<longrightarrow>
            (\<exists>u\<in>set (users s). uid u = me \<and> email u = normalize_email e) \<longrightarrow>
            fst (updateProfile env me nm e s) = Sent ProfileUpdated)"
proof -
  from assms(2) have inj: "inj_on email (set (users s))" by (simp add: distinct_map)
  have owner: "User_findOne s e = Some u"
    if "u \<in> set (users s)" "email u = normalize_email e" for u
  proof -
    from that have "normalize_email e \<in> email ` set (users s)" by force
    then have "User_findOne s e \<noteq> None" by (simp add: User_findOne_None_iff)
    then obtain x where x: "User_findOne s e = Some x" by auto
    from User_findOne_Some [OF x]
    have xs: "x \<in> set (users s)" "email x = normalize_email e" by simp_all
    from xs(2) that(2) have "email x = email u" by simp
    from inj this xs(1) that(1) have "x = u" by (rule inj_onD)
    with x show ?thesis by simp
  qed
  show ?thesis
  proof (intro conjI impI iffI)
    assume "fst (updateProfile env me nm e s) = Failure 409 DuplicateEmail"
    with assms(1) obtain x where "User_findOne s e = Some x" "uid x \<noteq> me"
      by (auto simp: updateProfile_def split: option.splits if_splits)
    with User_findOne_Some [of s e x]
    show "\<exists>u\<in>set (users s). uid u \<noteq> me \<and> email u = normalize_email e" by blast
  next
    assume "\<exists>u\<in>set (users s). uid u \<noteq> me \<and> email u = normalize_email e"
    then obtain u where "User_findOne s e = Some u" "uid u \<noteq> me" using owner by blast
    with assms(1) show "fst (updateProfile env me nm e s) = Failure 409 DuplicateEmail"
      by (simp add: updateProfile_def)
  next
    assume "user_save_ok env"
      and "\<exists>u\<in>set (users s). uid u = me \<and> email u = normalize_email e"
    then obtain u where "User_findOne s e = Some u" "uid u = me" "user_save_ok env"
      using owner by blast
    with assms(1) show "fst (updateProfile env me nm e s) = Sent ProfileUpdated"
      by (simp add: updateProfile_def)
  qed
qed

theorem updateProfile_duplicate_email_witness:
  "reads_ok env_ok \<and> user_save_ok env_ok \<and> distinct (map email (users db0)) \<and>
   (\<exists>u\<in>set (users db0). uid u \<noteq> 1 \<and> email u = normalize_email ''Bob@x.com'') \<and>
   fst (updateProfile env_ok 1 ''Ann'' ''Bob@x.com'' db0) = Failure 409 DuplicateEmail \<and>
   (\<exists>u\<in>set (users db0). uid u = 1 \<and> email u = normalize_email ''Ann@x.com'') \<and>
   fst (updateProfile env_ok 1 ''Ann B.'' ''Ann@x.com'' db0) = Sent ProfileUpdated"
proof -
  have a: "reads_ok env_ok" "user_save_ok env_ok" by code_simp+
  have b: "distinct (map email (users db0))" by code_simp
  have c: "\<exists>u\<in>set (users db0). uid u \<noteq> 1 \<and> email u = normalize_email ''Bob@x.com''"
    by code_simp
  have d: "\<exists>u\<in>set (users db0). uid u = 1 \<and> email u = normalize_email ''Ann@x.com''"
    by code_simp
  note T = updateProfile_duplicate_email [OF a(1) b]
  from T [of 1 "''Ann''" "''Bob@x.com''"] c
  have c': "fst (updateProfile env_ok 1 ''Ann'' ''Bob@x.com'' db0) = Failure 409 DuplicateEmail"
    by blast
  from T [of 1 "''Ann B.''" "''Ann@x.com''"] a(2) d
  have d': "fst (updateProfile env_ok 1 ''Ann B.'' ''Ann@x.com'' db0) = Sent ProfileUpdated"
    by blast
  from a b c d c' d' show ?thesis by blast
qed

section \<open>Password reset (C10)\<close>

text \<open>
  C10. \<^verbatim>\<open>forgotPassword\<close> stores a new token for the account an email names and hands
  over the reset mail, with no condition on the account being confirmed.
  \<^verbatim>\<open>updatePasswordWithToken\<close> with a token whose account exists answers success; the
  identifiers, names, emails and confirmation flags of all accounts, and the outbox, stay
  as they were, and no token is added. With both writes resolving, exactly the password
  of the token's account is replaced by the hash of the new one, and the token is gone.
\<close>

theorem password_reset_frame:
  assumes "reads_ok env"
  shows "(User_findOne s e = Some u \<and> token_delete_ok env \<and> token_save_ok env \<longrightarrow>
            fst (forgotPassword env e s) = Sent ResetInstructions \<and>
            \<lparr>tid = new_oid s, token = generateToken env, user = uid u\<rparr>
              \<in> set (tokens (snd (forgotPassword env e s))) \<and>
            outbox (snd (forgotPassword env e s))
              = outbox s @ [PasswordResetToken (email u) (name u) (generateToken env)] \<and>
            users (snd (forgotPassword env e s)) = users s) \<and>
         (Token_findOne s t = Some k \<and> User_findById s (user k) = Some a \<longrightarrow>
            fst (updatePasswordWithToken env t pw s) = Sent PasswordModified \<and>
            map uid (users (snd (updatePasswordWithToken env t pw s))) = map uid (users s) \<and>
            map name (users (snd (updatePasswordWithToken env t pw s))) = map name (users s) \<and>
            map email (users (snd (updatePasswordWithToken env t pw s))) = map email (users s) \<and>
            map confirmed (users (snd (updatePasswordWithToken env t pw s)))
              = map confirmed (users s) \<and>
            outbox (snd (updatePasswordWithToken env t pw s)) = outbox s \<and>
            set (tokens (snd (updatePasswordWithToken env t pw s))) \<subseteq> set (tokens s) \<and>
            (user_save_ok env \<and> token_delete_ok env \<longrightarrow>
               users (snd (updatePasswordWithToken env t pw s))
                 = map (\<lambda>v. if uid v = uid a then v\<lparr>password := hashPassword env pw\<rparr> else v)
                     (users s) \<and>
               k \<notin> set (tokens (snd (updatePasswordWithToken env t pw s)))))"
proof (intro conjI impI)
  assume h: "User_findOne s e = Some u \<and> token_delete_ok env \<and> token_save_ok env"
  with assms show "fst (forgotPassword env e s) = Sent ResetInstructions"
    by (simp add: forgotPassword_def Let_def)
  from assms h show "\<lparr>tid = new_oid s, token = generateToken env, user = uid u\<rparr>
              \<in> set (tokens (snd (forgotPassword env e s)))"
    by (simp add: forgotPassword_def Let_def send_def save_token_def)
  from assms h show "outbox (snd (forgotPassword env e s))
              = outbox s @ [PasswordResetToken (email u) (name u) (generateToken env)]"
    by (simp add: forgotPassword_def Let_def send_def save_token_def deleteOne_def
          split: option.splits)
  from assms h show "users (snd (forgotPassword env e s)) = users s"
    by (simp add: forgotPassword_def Let_def send_def save_token_def deleteOne_def
          split: option.splits)
next
  assume h: "Token_findOne s t = Some k \<and> User_findById s (user k) = Some a"
  let ?s' = "snd (updatePasswordWithToken env t pw s)"
  from assms h show "fst (updatePasswordWithToken env t pw s) = Sent PasswordModified"
    by (simp add: updatePasswordWithToken_def Let_def)
  from assms h show "map uid (users ?s') = map uid (users s)"
    by (simp add: updatePasswordWithToken_def Let_def deleteOne_def frame_update_user)
  from assms h show "map name (users ?s') = map name (users s)"
    by (simp add: updatePasswordWithToken_def Let_def deleteOne_def frame_update_user)
  from assms h show "map email (users ?s') = map email (users s)"
    by (simp add: updatePasswordWithToken_def Let_def deleteOne_def frame_update_user)
  from assms h show "map confirmed (users ?s') = map confirmed (users s)"
    by (simp add: updatePasswordWithToken_def Let_def deleteOne_def frame_update_user)
  from assms h show "outbox ?s' = outbox s"
    by (simp add: updatePasswordWithToken_def Let_def deleteOne_def update_user_def)
  from assms h show "set (tokens ?s') \<subseteq> set (tokens s)"
    by (auto simp: updatePasswordWithToken_def Let_def deleteOne_def update_user_def)
next
  assume h: "Token_findOne s t = Some k \<and> User_findById s (user k) = Some a"
    and w: "user_save_ok env \<and> token_delete_ok env"
  from h have a: "uid a = user k"
    by (auto simp: User_findById_def find_Some_iff)
  from assms h w a show "users (snd (updatePasswordWithToken env t pw s))
                 = map (\<lambda>v. if uid v = uid a then v\<lparr>password := hashPassword env pw\<rparr> else v)
                     (users s)"
    by (simp add: updatePasswordWithToken_def Let_def deleteOne_def update_user_def)
  from assms h w show "k \<notin> set (tokens (snd (updatePasswordWithToken env t pw s)))"
    by (simp add: updatePasswordWithToken_def Let_def deleteOne_def update_user_def)
qed

theorem password_reset_frame_witness:
  "reads_ok env_ok \<and> token_delete_ok env_ok \<and> token_save_ok env_ok \<and> user_save_ok env_ok \<and>
   User_findOne db0 ''bob@x.com'' = Some bob \<and> confirmed bob \<and>
   fst (forgotPassword env_ok ''bob@x.com'' db0) = Sent ResetInstructions \<and>
   \<lparr>tid = new_oid db0, token = generateToken env_ok, user = uid bob\<rparr>
      \<in> set (tokens (snd (forgotPassword env_ok ''bob@x.com'' db0))) \<and>
   Token_findOne db0 ''111111'' = Some ann_token \<and>
   User_findById db0 (user ann_token) = Some ann \<and>
   fst (updatePasswordWithToken env_ok ''111111'' ''new'' db0) = Sent PasswordModified \<and>
   map confirmed (users (snd (updatePasswordWithToken env_ok ''111111'' ''new'' db0)))
     = map confirmed (users db0) \<and>
   ann_token \<notin> set (tokens (snd (updatePasswordWithToken env_ok ''111111'' ''new'' db0))) \<and>
   snd (updatePasswordWithToken env_ok ''111111'' ''new'' db0)
     = db0\<lparr>users := [ann\<lparr>password := ''h:new''\<rparr>, bob], tokens := [bob_token]\<rparr>"
proof -
  have r: "reads_ok env_ok" by code_simp
  have w: "token_delete_ok env_ok \<and> token_save_ok env_ok \<and> user_save_ok env_ok" by code_simp
  have a: "User_findOne db0 ''bob@x.com'' = Some bob \<and> confirmed bob" by code_simp
  have b: "Token_findOne db0 ''111111'' = Some ann_token \<and>
           User_findById db0 (user ann_token) = Some ann" by code_simp
  have c: "snd (updatePasswordWithToken env_ok ''111111'' ''new'' db0)
     = db0\<lparr>users := [ann\<lparr>password := ''h:new''\<rparr>, bob], tokens := [bob_token]\<rparr>"
    by code_simp
  from password_reset_frame [where env = env_ok and s = db0 and e = "''bob@x.com''"
      and u = bob, OF r] a w
  have a': "fst (forgotPassword env_ok ''bob@x.com'' db0) = Sent ResetInstructions \<and>
     \<lparr>tid = new_oid db0, token = generateToken env_ok, user = uid bob\<rparr>
        \<in> set (tokens (snd (forgotPassword env_ok ''bob@x.com'' db0)))" by blast
  from password_reset_frame [where env = env_ok and s = db0 and t = "''111111''"
      and k = ann_token and a = ann and pw = "''new''", OF r] b w
  have b': "fst (updatePasswordWithToken env_ok ''111111'' ''new'' db0) = Sent PasswordModified \<and>
     map confirmed (users (snd (updatePasswordWithToken env_ok ''111111'' ''new'' db0)))
       = map confirmed (users db0) \<and>
     ann_token \<notin> set (tokens (snd (updatePasswordWithToken env_ok ''111111'' ''new'' db0)))"
    by blast
  from r w a b c a' b' show ?thesis by blast
qed

section \<open>Authorization on the project routes (C1)\<close>

lemma status_gate_is_delete_gate:
  "inputs_valid r \<Longrightarrow>
   (dispatch_with gate updateStatus r = Reaches updateStatus) =
   (dispatch_with gate deleteProject r = Reaches deleteProject)"
  by (simp add: dispatch_with_def)




end
